theory Spec2Isabelle
  imports Main
begin

section \<open>Strings and numbers of the host language\<close>

text \<open>
  A JavaScript string is a sequence of UTF-16 code units. A code unit is modelled as a
  natural number (below 65536 in every string the program can hold), so that the
  \<^verbatim>\<open>\uXXXX\<close> escapes of JSON and the Unicode white space of \<^verbatim>\<open>trim\<close> and of the
  regular expression class \<^verbatim>\<open>\s\<close> are expressible. \<open>js\<close> turns an ASCII literal into
  such a string.
\<close>

type_synonym jsstring = "nat list"

definition js :: "string \<Rightarrow> jsstring" where
  "js s = map of_char s"

definition dquote :: nat where
  "dquote = 34"

definition backslash :: nat where
  "backslash = 92"

text \<open>
  \<^verbatim>\<open>Number.prototype.toString\<close> on a non-negative integer (\<^verbatim>\<open>Date.now()\<close>, an HTTP
  status): its decimal digits, most significant first.
\<close>

function toString :: "nat \<Rightarrow> jsstring" where
  "toString n = (if n < 10 then [48 + n] else toString (n div 10) @ [48 + n mod 10])"
  by pat_completeness auto
termination
  by (relation "measure (\<lambda>n. n)") auto

declare toString.simps [simp del]

text \<open>
  The characters that \<^verbatim>\<open>String.prototype.trim\<close> strips and that \<^verbatim>\<open>\s\<close> matches:
  ECMAScript's WhiteSpace and LineTerminator productions.
\<close>

definition isWhiteSpace :: "nat \<Rightarrow> bool" where
  "isWhiteSpace c =
     (c = 9 \<or> c = 10 \<or> c = 11 \<or> c = 12 \<or> c = 13 \<or> c = 32 \<or> c = 160 \<or> c = 5760
      \<or> (8192 \<le> c \<and> c \<le> 8202) \<or> c = 8232 \<or> c = 8233 \<or> c = 8239 \<or> c = 8287
      \<or> c = 12288 \<or> c = 65279)"

definition trim :: "jsstring \<Rightarrow> jsstring" where
  "trim s = rev (dropWhile isWhiteSpace (rev (dropWhile isWhiteSpace s)))"

section \<open>Configuration\<close>

definition MAX_HISTORY_LENGTH :: nat where
  "MAX_HISTORY_LENGTH = 100"

definition CONTEXT_WINDOW_SIZE :: nat where
  "CONTEXT_WINDOW_SIZE = 10"

section \<open>Data model\<close>

text \<open>
  The interfaces \<^verbatim>\<open>Message\<close>, \<^verbatim>\<open>ChatSession\<close> and \<^verbatim>\<open>GeminiContent\<close>. Both
  \<^verbatim>\<open>Message\<close> and \<^verbatim>\<open>ChatSession\<close> have a field \<^verbatim>\<open>id\<close> in the source; the fields are
  prefixed here to keep them apart (and apart from the identity function).
\<close>

record Message =
  msg_id :: jsstring
  msg_text :: jsstring
  isFromUser :: bool

record ChatSession =
  session_id :: jsstring
  messages :: "Message list"

datatype Role = RoleUser | RoleModel

record GeminiContent =
  role :: Role
  parts :: "jsstring list"

text \<open>
  The state of the component \<^verbatim>\<open>ChatScreen\<close>: one field per \<^verbatim>\<open>useState\<close> hook.
  \<open>activeSessionId\<close> is \<^verbatim>\<open>string | null\<close>.
\<close>

record ChatScreen =
  sessions :: "ChatSession list"
  activeSessionId :: "jsstring option"
  inputText :: jsstring
  isLoading :: bool
  isDrawerVisible :: bool
  selectedModel :: jsstring
  isRecording :: bool

definition initialState :: ChatScreen where
  "initialState =
     \<lparr>sessions = [], activeSessionId = None, inputText = [], isLoading = False,
      isDrawerVisible = False, selectedModel = js ''gemini-1.5-flash'', isRecording = False\<rparr>"

section \<open>Chat history management\<close>

text \<open>
  Every function that reads the clock takes the value of \<^verbatim>\<open>Date.now()\<close> as its first
  argument.
\<close>

definition createNewChat :: "nat \<Rightarrow> ChatScreen \<Rightarrow> ChatScreen" where
  "createNewChat now st =
     (let newSession = \<lparr>session_id = toString now, messages = []\<rparr>
      in st\<lparr>sessions := newSession # sessions st,
            activeSessionId := Some (session_id newSession),
            isDrawerVisible := False\<rparr>)"

definition switchToSession :: "jsstring \<Rightarrow> ChatScreen \<Rightarrow> ChatScreen" where
  "switchToSession sessionId st =
     st\<lparr>activeSessionId := Some sessionId, isDrawerVisible := False\<rparr>"

definition deleteSession :: "nat \<Rightarrow> jsstring \<Rightarrow> ChatScreen \<Rightarrow> ChatScreen" where
  "deleteSession now sessionId st =
     (let newSessions = filter (\<lambda>s. session_id s \<noteq> sessionId) (sessions st);
          st1 = st\<lparr>sessions := newSessions\<rparr>
      in if activeSessionId st = Some sessionId then
           (if length newSessions > 0 then
              st1\<lparr>activeSessionId := Some (session_id (hd newSessions))\<rparr>
            else
              (let newSession = \<lparr>session_id = toString now, messages = []\<rparr>
               in st1\<lparr>sessions := [newSession],
                      activeSessionId := Some (session_id newSession)\<rparr>))
         else st1)"

text \<open>
  \<^verbatim>\<open>loadHistory\<close>: what \<^verbatim>\<open>AsyncStorage.getItem\<close> and \<^verbatim>\<open>JSON.parse\<close> delivered is
  the argument. \<open>Absent\<close> is a falsy item (\<^verbatim>\<open>null\<close> or the empty string), \<open>Malformed\<close>
  an exception of either call, \<open>Parsed\<close> the parsed session list.
\<close>

datatype stored = Absent | Malformed | Parsed "ChatSession list"

definition loadHistory :: "nat \<Rightarrow> stored \<Rightarrow> ChatScreen \<Rightarrow> ChatScreen" where
  "loadHistory now storedHistory st =
     (case storedHistory of
        Parsed parsedHistory \<Rightarrow>
          (if length parsedHistory > 0 then
             st\<lparr>sessions := parsedHistory,
                activeSessionId := Some (session_id (hd parsedHistory))\<rparr>
           else createNewChat now st)
      | Absent \<Rightarrow> createNewChat now st
      | Malformed \<Rightarrow> createNewChat now st)"

text \<open>
  \<^verbatim>\<open>saveHistory\<close> and the effect that runs it: the result is the session list handed
  to \<^verbatim>\<open>AsyncStorage.setItem\<close> (serialised there by \<^verbatim>\<open>JSON.stringify\<close>), or \<open>None\<close>
  when nothing is written.
\<close>

definition saveHistory :: "ChatSession list \<Rightarrow> ChatSession list option" where
  "saveHistory ss = (if length ss = 0 then None else Some (take MAX_HISTORY_LENGTH ss))"

definition saveHistoryEffect :: "ChatScreen \<Rightarrow> ChatSession list option" where
  "saveHistoryEffect st = (if \<not> isLoading st then saveHistory (sessions st) else None)"

section \<open>Sending a message\<close>

text \<open>
  \<^verbatim>\<open>sessions.find(s => s.id === activeSessionId)\<close>: the first session whose id is the
  active id, \<open>None\<close> for \<^verbatim>\<open>undefined\<close>.
\<close>

definition activeSession :: "ChatScreen \<Rightarrow> ChatSession option" where
  "activeSession st = find (\<lambda>s. Some (session_id s) = activeSessionId st) (sessions st)"

definition promptPrefix :: jsstring where
  "promptPrefix = js ''Please format your response in Markdown. Here is my question: ''"

definition toContent :: "Message \<Rightarrow> GeminiContent" where
  "toContent msg =
     \<lparr>role = (if isFromUser msg then RoleUser else RoleModel), parts = [msg_text msg]\<rparr>"

text \<open>
  The two updaters that \<^verbatim>\<open>handleSendMessage\<close> passes to \<^verbatim>\<open>setSessions\<close>: the one
  that appends the user message and the placeholder, and the one inside \<^verbatim>\<open>onChunk\<close>.
  \<open>target\<close> is the \<^verbatim>\<open>activeSessionId\<close> that the closure captured when the message was
  sent.
\<close>

definition appendPair :: "jsstring \<Rightarrow> Message \<Rightarrow> Message \<Rightarrow> ChatSession list \<Rightarrow> ChatSession list" where
  "appendPair target userMessage aiMessagePlaceholder prev =
     map (\<lambda>session.
            if session_id session = target then
              session\<lparr>messages := messages session @ [userMessage, aiMessagePlaceholder]\<rparr>
            else session) prev"

definition onChunk :: "jsstring \<Rightarrow> jsstring \<Rightarrow> ChatSession list \<Rightarrow> ChatSession list" where
  "onChunk target chunk prev =
     map (\<lambda>session.
            if session_id session = target then
              (case messages session of
                 [] \<Rightarrow> session
               | m # ms \<Rightarrow>
                   (let lastMessage = last (messages session);
                        updatedMessage = lastMessage\<lparr>msg_text := msg_text lastMessage @ chunk\<rparr>
                    in session\<lparr>messages := butlast (messages session) @ [updatedMessage]\<rparr>))
            else session) prev"

text \<open>What \<^verbatim>\<open>handleSendMessage\<close> hands to \<^verbatim>\<open>streamGeminiResponse\<close> and to \<open>onChunk\<close>.\<close>

record SendRequest =
  req_model :: jsstring
  req_history :: "GeminiContent list"
  req_target :: jsstring

text \<open>
  The synchronous part of \<^verbatim>\<open>handleSendMessage\<close>, up to the call of the engine. The
  source reads the clock twice, for the ids of the two messages. The result is the new
  state and the request made of the engine, \<open>None\<close> when the function returns at its
  guard. \<^verbatim>\<open>!activeSessionId\<close> holds of \<^verbatim>\<open>null\<close> and of the empty string.
  \<^verbatim>\<open>slice(-CONTEXT_WINDOW_SIZE)\<close>, the constant being 10, keeps the last ten messages,
  or all of them when there are fewer. The part after the call (the flag \<open>isLoading\<close>
  is reset when the promise settles) is not modelled.
\<close>

definition handleSendMessage :: "nat \<Rightarrow> nat \<Rightarrow> ChatScreen \<Rightarrow> ChatScreen \<times> SendRequest option" where
  "handleSendMessage now1 now2 st =
     (if trim (inputText st) = [] \<or> isLoading st \<or> activeSessionId st = None
         \<or> activeSessionId st = Some [] \<or> activeSession st = None
      then (st, None)
      else
        (case (activeSessionId st, activeSession st) of
           (Some target, Some active) \<Rightarrow>
             (let userMessage =
                    \<lparr>msg_id = toString now1, msg_text = inputText st, isFromUser = True\<rparr>;
                  aiMessagePlaceholder =
                    \<lparr>msg_id = toString (now2 + 1), msg_text = [], isFromUser = False\<rparr>;
                  recentMessages =
                    drop (length (messages active) - CONTEXT_WINDOW_SIZE) (messages active);
                  fullPrompt = promptPrefix @ inputText st;
                  history = map toContent recentMessages
                            @ [\<lparr>role = RoleUser, parts = [fullPrompt]\<rparr>]
              in (st\<lparr>sessions := appendPair target userMessage aiMessagePlaceholder (sessions st),
                     inputText := [],
                     isLoading := True\<rparr>,
                  Some \<lparr>req_model = selectedModel st, req_history = history,
                        req_target = target\<rparr>))
         | _ \<Rightarrow> (st, None)))"

section \<open>The streaming response engine\<close>

subsection \<open>The regular expression\<close>

text \<open>
  \<^verbatim>\<open>/"text"\s*:\s*"((?:\\"|[^"])*)"/g\<close>, matched by backtracking as ECMAScript
  prescribes. \<open>matchValue\<close> is the group \<^verbatim>\<open>((?:\\"|[^"])*)\<close> with the closing quote:
  each round of the greedy star tries backslash-quote first, then any character but a
  quote; when the rest of the pattern fails after a backslash-quote was taken, the
  backslash alone is taken by the second alternative and the quote closes the match.
  The result is the captured text and the input after the match.
\<close>

fun stripPrefix :: "jsstring \<Rightarrow> jsstring \<Rightarrow> jsstring option" where
  "stripPrefix [] s = Some s"
| "stripPrefix (p # ps) [] = None"
| "stripPrefix (p # ps) (c # cs) = (if p = c then stripPrefix ps cs else None)"

fun matchValue :: "jsstring \<Rightarrow> (jsstring \<times> jsstring) option" where
  "matchValue [] = None"
| "matchValue [c] = (if c = dquote then Some ([], []) else None)"
| "matchValue (c # d # cs) =
     (if c = dquote then Some ([], d # cs)
      else if c = backslash \<and> d = dquote then
        (case matchValue cs of
           Some (v, rest) \<Rightarrow> Some (c # d # v, rest)
         | None \<Rightarrow> Some ([c], cs))
      else
        (case matchValue (d # cs) of
           Some (v, rest) \<Rightarrow> Some (c # v, rest)
         | None \<Rightarrow> None))"

text \<open>
  A match of the whole expression at the start of the input. The greedy \<^verbatim>\<open>\s*\<close> takes
  all the white space there is; giving some back never helps, since the next character
  wanted (a colon, a quote) is no white space.
\<close>

definition matchAt :: "jsstring \<Rightarrow> (jsstring \<times> jsstring) option" where
  "matchAt s =
     (case stripPrefix (js ''\"text\"'') s of
        None \<Rightarrow> None
      | Some r1 \<Rightarrow>
          (case dropWhile isWhiteSpace r1 of
             [] \<Rightarrow> None
           | c # r2 \<Rightarrow>
               if c \<noteq> 58 then None
               else
                 (case dropWhile isWhiteSpace r2 of
                    [] \<Rightarrow> None
                  | q # r3 \<Rightarrow> if q \<noteq> dquote then None else matchValue r3)))"

subsection \<open>Decoding a match\<close>

text \<open>
  \<^verbatim>\<open>JSON.parse\<close> of a text that starts with a quote: the string token is read up to
  its closing quote, and only JSON white space may follow it. \<open>jsonString\<close> reads the
  token after its opening quote and returns the decoded string and the text left.
\<close>

definition hexDigit :: "nat \<Rightarrow> nat option" where
  "hexDigit c =
     (if 48 \<le> c \<and> c \<le> 57 then Some (c - 48)
      else if 65 \<le> c \<and> c \<le> 70 then Some (c - 55)
      else if 97 \<le> c \<and> c \<le> 102 then Some (c - 87)
      else None)"

definition simpleEscape :: "nat \<Rightarrow> nat option" where
  "simpleEscape e =
     (if e = 34 then Some 34
      else if e = 92 then Some 92
      else if e = 47 then Some 47
      else if e = 98 then Some 8
      else if e = 102 then Some 12
      else if e = 110 then Some 10
      else if e = 114 then Some 13
      else if e = 116 then Some 9
      else None)"

definition consDecoded :: "nat \<Rightarrow> (jsstring \<times> jsstring) option \<Rightarrow> (jsstring \<times> jsstring) option" where
  "consDecoded x r = (case r of None \<Rightarrow> None | Some (v, rest) \<Rightarrow> Some (x # v, rest))"

fun jsonString :: "jsstring \<Rightarrow> (jsstring \<times> jsstring) option" where
  "jsonString [] = None"
| "jsonString (c # cs) =
     (if c = dquote then Some ([], cs)
      else if c = backslash then
        (case cs of
           [] \<Rightarrow> None
         | e # r \<Rightarrow>
             if e = 117 then
               (case r of
                  h1 # h2 # h3 # h4 # r' \<Rightarrow>
                    (case (hexDigit h1, hexDigit h2, hexDigit h3, hexDigit h4) of
                       (Some a, Some b, Some c', Some d) \<Rightarrow>
                         consDecoded (4096 * a + 256 * b + 16 * c' + d) (jsonString r')
                     | _ \<Rightarrow> None)
                | _ \<Rightarrow> None)
             else
               (case simpleEscape e of
                  None \<Rightarrow> None
                | Some x \<Rightarrow> consDecoded x (jsonString r)))
      else if c < 32 then None
      else consDecoded c (jsonString cs))"

definition isJsonWhiteSpace :: "nat \<Rightarrow> bool" where
  "isJsonWhiteSpace c = (c = 32 \<or> c = 9 \<or> c = 10 \<or> c = 13)"

text \<open>\<^verbatim>\<open>JSON.parse(`"${m}"`)\<close>, with \<open>None\<close> for a SyntaxError.\<close>

definition jsonParseQuoted :: "jsstring \<Rightarrow> jsstring option" where
  "jsonParseQuoted m =
     (case jsonString (m @ [dquote]) of
        None \<Rightarrow> None
      | Some (decodedText, rest) \<Rightarrow>
          if list_all isJsonWhiteSpace rest then Some decodedText else None)"

text \<open>The body of the while loop: the argument that \<open>onChunk\<close> gets for a match.\<close>

definition decodeMatch :: "jsstring \<Rightarrow> jsstring" where
  "decodeMatch m = (case jsonParseQuoted m of Some decodedText \<Rightarrow> decodedText | None \<Rightarrow> m)"

subsection \<open>The scan of one progress event\<close>

lemma stripPrefix_length: "stripPrefix p s = Some r \<Longrightarrow> length r \<le> length s"
  by (induction p s rule: stripPrefix.induct) (auto split: if_splits)

lemma matchValue_length: "matchValue s = Some (v, r) \<Longrightarrow> length r < length s"
  by (induction s arbitrary: v r rule: matchValue.induct)
    (fastforce split: if_splits option.splits)+

lemma dropWhile_Cons_length: "dropWhile P xs = y # ys \<Longrightarrow> length ys < length xs"
  using length_dropWhile_le [of P xs] by simp

lemma matchAt_length:
  assumes "matchAt s = Some (v, r)"
  shows "length r < length s"
proof -
  from assms obtain r1 c r2 q r3 where
    a: "stripPrefix (js ''\"text\"'') s = Some r1" and
    b: "dropWhile isWhiteSpace r1 = c # r2" and
    c: "dropWhile isWhiteSpace r2 = q # r3" and
    d: "matchValue r3 = Some (v, r)"
    by (auto simp: matchAt_def split: option.splits list.splits if_splits)
  from stripPrefix_length [OF a] dropWhile_Cons_length [OF b] dropWhile_Cons_length [OF c]
    matchValue_length [OF d]
  show ?thesis by linarith
qed

text \<open>
  The loop \<^verbatim>\<open>while ((match = regex.exec(newText)) !== null)\<close> of a global expression:
  the leftmost match from the position after the last one, until none is left. The
  result lists the arguments of the \<open>onChunk\<close> calls in order.
\<close>

function scan :: "jsstring \<Rightarrow> jsstring list" where
  "scan [] = []"
| "scan (c # cs) =
     (case matchAt (c # cs) of
        Some (m, rest) \<Rightarrow> decodeMatch m # scan rest
      | None \<Rightarrow> scan cs)"
  by pat_completeness auto
termination
  by (relation "measure length") (auto dest: matchAt_length)

subsection \<open>The promise and the handlers of the request\<close>

datatype promise = Pending | Fulfilled | Rejected jsstring

text \<open>\<^verbatim>\<open>resolve\<close> and \<^verbatim>\<open>reject\<close> settle a promise once; later calls change nothing.\<close>

definition settle :: "promise \<Rightarrow> promise \<Rightarrow> promise" where
  "settle outcome p = (if p = Pending then outcome else p)"

text \<open>
  The state of one call of \<^verbatim>\<open>streamGeminiResponse\<close>: the variable
  \<^verbatim>\<open>lastResponseLength\<close>, the arguments of the \<open>onChunk\<close> calls made so far, and the
  returned promise.
\<close>

record Engine =
  lastResponseLength :: nat
  emitted :: "jsstring list"
  promise :: promise

record XhrRequest =
  xhr_url :: jsstring
  xhr_contents :: "GeminiContent list"

definition missingKeyMsg :: jsstring where
  "missingKeyMsg = js ''Error: API Key is not configured. Please check your .env file.''"

text \<open>
  The call itself. \<open>apiKey\<close> is \<^verbatim>\<open>GEMINI_API_KEY\<close>, \<open>None\<close> when the environment
  variable is undefined; \<^verbatim>\<open>!GEMINI_API_KEY\<close> holds of that and of the empty string.
  The second component is the request sent, \<open>None\<close> when there is none.
\<close>

definition streamGeminiResponse :: "jsstring option \<Rightarrow> jsstring \<Rightarrow> GeminiContent list \<Rightarrow> Engine \<times> XhrRequest option" where
  "streamGeminiResponse apiKey modelId history =
     (case apiKey of
        None \<Rightarrow>
          (\<lparr>lastResponseLength = 0, emitted = [missingKeyMsg], promise = Rejected missingKeyMsg\<rparr>,
           None)
      | Some key \<Rightarrow>
          if key = [] then
            (\<lparr>lastResponseLength = 0, emitted = [missingKeyMsg],
              promise = Rejected missingKeyMsg\<rparr>, None)
          else
            (\<lparr>lastResponseLength = 0, emitted = [], promise = Pending\<rparr>,
             Some \<lparr>xhr_url = js ''https://generativelanguage.googleapis.com/v1beta/models/''
                              @ modelId @ js '':streamGenerateContent?key='' @ key,
                   xhr_contents = history\<rparr>))"

definition onprogress :: "jsstring \<Rightarrow> Engine \<Rightarrow> Engine" where
  "onprogress responseText e =
     (let newText = drop (lastResponseLength e) responseText
      in e\<lparr>lastResponseLength := length responseText,
           emitted := emitted e @ scan newText\<rparr>)"

definition onloadend :: "nat \<Rightarrow> Engine \<Rightarrow> Engine" where
  "onloadend status e =
     (if 200 \<le> status \<and> status < 300 then e\<lparr>promise := settle Fulfilled (promise e)\<rparr>
      else
        (let errorMsg = js ''Request failed. Status: '' @ toString status
         in e\<lparr>promise := settle (Rejected errorMsg) (promise e)\<rparr>))"

definition onerror :: "nat \<Rightarrow> Engine \<Rightarrow> Engine" where
  "onerror status e =
     (let errorMsg = js ''Network request failed. Status: '' @ toString status
      in e\<lparr>emitted := emitted e @ [[10, 10] @ js ''**Error:** '' @ errorMsg],
           promise := settle (Rejected errorMsg) (promise e)\<rparr>)"

text \<open>
  The events of the request, each with what the handler reads from it:
  \<^verbatim>\<open>xhr.responseText\<close> or \<^verbatim>\<open>xhr.status\<close>.
\<close>

datatype xhr_event = OnProgress jsstring | OnLoadEnd nat | OnError nat

fun dispatch :: "Engine \<Rightarrow> xhr_event \<Rightarrow> Engine" where
  "dispatch e (OnProgress responseText) = onprogress responseText e"
| "dispatch e (OnLoadEnd status) = onloadend status e"
| "dispatch e (OnError status) = onerror status e"

text \<open>
  A response body that arrives in pieces: one progress event per piece, at which
  \<^verbatim>\<open>xhr.responseText\<close> is all that has arrived so far.
\<close>

fun feed :: "Engine \<Rightarrow> jsstring \<Rightarrow> jsstring list \<Rightarrow> Engine" where
  "feed e received [] = e"
| "feed e received (piece # pieces) =
     feed (onprogress (received @ piece) e) (received @ piece) pieces"

text \<open>A user action on the session collection, with the clock reading it sees.\<close>

datatype action = NewChat nat | Delete nat jsstring

fun perform :: "ChatScreen \<Rightarrow> action \<Rightarrow> ChatScreen" where
  "perform st (NewChat now) = createNewChat now st"
| "perform st (Delete now sessionId) = deleteSession now sessionId st"

text \<open>The active id is the id of a session of the collection.\<close>

definition activeExists :: "ChatScreen \<Rightarrow> bool" where
  "activeExists st =
     (case activeSessionId st of
        None \<Rightarrow> False
      | Some a \<Rightarrow> a \<in> set (map session_id (sessions st)))"

text \<open>
  The clock is fresh along a run: at each \<open>NewChat\<close>, the decimal rendering of the
  clock reading is not yet the id of a session of the collection.
\<close>

fun freshClock :: "ChatScreen \<Rightarrow> action list \<Rightarrow> bool" where
  "freshClock st [] = True"
| "freshClock st (NewChat now # as) =
     (toString now \<notin> set (map session_id (sessions st))
      \<and> freshClock (perform st (NewChat now)) as)"
| "freshClock st (Delete now sessionId # as) =
     freshClock (perform st (Delete now sessionId)) as"

text \<open>The clock reading of an action.\<close>

fun clockOf :: "action \<Rightarrow> nat" where
  "clockOf (NewChat now) = now"
| "clockOf (Delete now sessionId) = now"

text \<open>
  A character that stands for itself in a JSON string: no quote, no backslash, no
  control character.
\<close>

definition plainChar :: "nat \<Rightarrow> bool" where
  "plainChar c = (c \<noteq> dquote \<and> c \<noteq> backslash \<and> 32 \<le> c)"

section \<open>Example states\<close>

definition exampleMessages :: "Message list" where
  "exampleMessages =
     [\<lparr>msg_id = js ''11'', msg_text = js ''hello'', isFromUser = True\<rparr>,
      \<lparr>msg_id = js ''12'', msg_text = js ''Hel'', isFromUser = False\<rparr>]"

definition exampleSessions :: "ChatSession list" where
  "exampleSessions =
     [\<lparr>session_id = js ''2'', messages = exampleMessages\<rparr>,
      \<lparr>session_id = js ''1'', messages = []\<rparr>]"

definition exampleScreen :: ChatScreen where
  "exampleScreen =
     initialState\<lparr>sessions := exampleSessions, activeSessionId := Some (js ''2''),
                  inputText := js ''hi''\<rparr>"

definition exampleSingle :: ChatScreen where
  "exampleSingle =
     initialState\<lparr>sessions := [\<lparr>session_id = js ''1'', messages = exampleMessages\<rparr>],
                  activeSessionId := Some (js ''1'')\<rparr>"

definition exampleLong :: ChatScreen where
  "exampleLong =
     initialState
       \<lparr>sessions :=
          [\<lparr>session_id = js ''1'',
            messages = map (\<lambda>n. \<lparr>msg_id = toString n, msg_text = toString n,
                                   isFromUser = even n\<rparr>) [0..<12]\<rparr>],
        activeSessionId := Some (js ''1''), inputText := js ''hi''\<rparr>"

definition exampleEngine :: Engine where
  "exampleEngine =
     fst (streamGeminiResponse (Some (js ''key'')) (js ''gemini-1.5-flash'') [])"

section \<open>The session collection is never empty\<close>

lemma createNewChat_activeExists: "activeExists (createNewChat now st)"
  by (simp add: activeExists_def createNewChat_def Let_def)

lemma deleteSession_activeExists:
  assumes "activeExists st"
  shows "activeExists (deleteSession now sessionId st)"
proof (cases "activeSessionId st = Some sessionId")
  case True
  show ?thesis
  proof (cases "filter (\<lambda>s. session_id s \<noteq> sessionId) (sessions st)")
    case Nil
    with True show ?thesis
      by (simp add: activeExists_def deleteSession_def Let_def)
  next
    case (Cons s ss)
    with True show ?thesis
      by (simp add: activeExists_def deleteSession_def Let_def)
  qed
next
  case False
  with assms show ?thesis
    by (auto simp: activeExists_def deleteSession_def Let_def split: option.splits)
qed

lemma loadHistory_activeExists: "activeExists (loadHistory now storedHistory st)"
proof (cases storedHistory)
  case (Parsed parsedHistory)
  then show ?thesis
    by (cases parsedHistory)
      (simp_all add: loadHistory_def createNewChat_activeExists, simp add: activeExists_def)
qed (simp_all add: loadHistory_def createNewChat_activeExists)

lemma perform_activeExists: "activeExists st \<Longrightarrow> activeExists (perform st a)"
  by (cases a) (simp_all add: createNewChat_activeExists deleteSession_activeExists)

lemma foldl_perform_activeExists:
  "activeExists st \<Longrightarrow> activeExists (foldl perform st as)"
  by (induction as arbitrary: st) (simp_all add: perform_activeExists)

lemma activeExists_nonempty: "activeExists st \<Longrightarrow> sessions st \<noteq> []"
  by (auto simp: activeExists_def split: option.splits)

text \<open>
  C4. After initialisation (\<open>loadHistory\<close> from any storage content, at any clock
  reading), every sequence of \<open>createNewChat\<close> and \<open>deleteSession\<close> calls, with any ids
  and any clock readings, leaves a non-empty session collection whose active id is the
  id of one of its sessions.
\<close>

theorem sessions_never_empty:
  "sessions (foldl perform (loadHistory now0 storedHistory initialState) as) \<noteq> []
   \<and> activeExists (foldl perform (loadHistory now0 storedHistory initialState) as)"
  using foldl_perform_activeExists [OF loadHistory_activeExists] activeExists_nonempty
  by blast

section \<open>Deleting a session\<close>

text \<open>
  C5. \<open>deleteSession\<close> removes every session with the given id. When that id was not the
  active one, the active id stays. When it was and sessions remain, the front of the
  remaining collection becomes active. When it was and none remains, the collection
  becomes one new session with no messages, whose id is the decimal clock reading, and
  that session is active; so deleting the only session, when it is active, leaves
  exactly one session, empty and active.
\<close>

theorem deleteSession_result:
  "(activeSessionId st \<noteq> Some sessionId \<longrightarrow>
      sessions (deleteSession now sessionId st)
        = filter (\<lambda>s. session_id s \<noteq> sessionId) (sessions st)
      \<and> activeSessionId (deleteSession now sessionId st) = activeSessionId st)
   \<and> (activeSessionId st = Some sessionId
        \<and> filter (\<lambda>s. session_id s \<noteq> sessionId) (sessions st) \<noteq> [] \<longrightarrow>
      sessions (deleteSession now sessionId st)
        = filter (\<lambda>s. session_id s \<noteq> sessionId) (sessions st)
      \<and> activeSessionId (deleteSession now sessionId st)
        = Some (session_id (hd (filter (\<lambda>s. session_id s \<noteq> sessionId) (sessions st)))))
   \<and> (activeSessionId st = Some sessionId
        \<and> filter (\<lambda>s. session_id s \<noteq> sessionId) (sessions st) = [] \<longrightarrow>
      sessions (deleteSession now sessionId st)
        = [\<lparr>session_id = toString now, messages = []\<rparr>]
      \<and> activeSessionId (deleteSession now sessionId st) = Some (toString now))
   \<and> (activeSessionId st = Some sessionId \<and> sessions st = [only]
        \<and> session_id only = sessionId \<longrightarrow>
      length (sessions (deleteSession now sessionId st)) = 1
      \<and> messages (hd (sessions (deleteSession now sessionId st))) = []
      \<and> activeSessionId (deleteSession now sessionId st)
        = Some (session_id (hd (sessions (deleteSession now sessionId st)))))"
  by (simp add: deleteSession_def Let_def)

text \<open>
  The three cases on concrete states: a session that is not active, the active one of
  two, and the only one.
\<close>

theorem deleteSession_result_witness:
  "sessions (deleteSession 7 (js ''1'') exampleScreen)
     = [\<lparr>session_id = js ''2'', messages = exampleMessages\<rparr>]
   \<and> activeSessionId (deleteSession 7 (js ''1'') exampleScreen) = Some (js ''2'')
   \<and> sessions (deleteSession 7 (js ''2'') exampleScreen)
     = [\<lparr>session_id = js ''1'', messages = []\<rparr>]
   \<and> activeSessionId (deleteSession 7 (js ''2'') exampleScreen) = Some (js ''1'')
   \<and> sessions (deleteSession 7 (js ''1'') exampleSingle)
     = [\<lparr>session_id = js ''7'', messages = []\<rparr>]
   \<and> activeSessionId (deleteSession 7 (js ''1'') exampleSingle) = Some (js ''7'')"
  using deleteSession_result [of exampleScreen "js ''1''" 7]
    deleteSession_result [of exampleScreen "js ''2''" 7]
    deleteSession_result [of exampleSingle "js ''1''" 7]
  by (simp add: exampleScreen_def exampleSingle_def exampleSessions_def initialState_def
      js_def toString.simps)

section \<open>Session ids\<close>

text \<open>
  C9 as stated fails: the id of a new session is the decimal clock reading and is not
  compared with the ids of the collection. After a start at clock reading 1000 with no
  stored history, a \<open>createNewChat\<close> that reads 1000 again gives two sessions the id
  \<^verbatim>\<open>"1000"\<close>.
\<close>

theorem duplicate_id_counterexample:
  "toString 1000 \<in> set (map session_id (sessions (loadHistory 1000 Absent initialState)))
   \<and> \<not> distinct (map session_id
         (sessions (createNewChat 1000 (loadHistory 1000 Absent initialState))))"
  by (simp add: loadHistory_def createNewChat_def Let_def)

lemma createNewChat_distinct:
  "distinct (map session_id (sessions st)) \<Longrightarrow>
   toString now \<notin> set (map session_id (sessions st)) \<Longrightarrow>
   distinct (map session_id (sessions (createNewChat now st)))"
  by (simp add: createNewChat_def Let_def)

lemma deleteSession_distinct:
  "distinct (map session_id (sessions st)) \<Longrightarrow>
   distinct (map session_id (sessions (deleteSession now sessionId st)))"
  by (simp add: deleteSession_def Let_def distinct_map_filter)

text \<open>
  C9, amended. From a collection with pairwise distinct ids, every run of
  \<open>createNewChat\<close> and \<open>deleteSession\<close> calls in which the clock reading of each
  \<open>createNewChat\<close>, written in decimal, is not already the id of a session of the
  collection keeps the ids pairwise distinct. \<open>deleteSession\<close> needs no proviso: its
  fallback session is the only session of the collection it is put in.
\<close>

theorem ids_distinct_when_clock_fresh:
  "distinct (map session_id (sessions st)) \<Longrightarrow> freshClock st as \<Longrightarrow>
   distinct (map session_id (sessions (foldl perform st as)))"
proof (induction st as rule: freshClock.induct)
  case (1 st)
  then show ?case by simp
next
  case (2 st now as)
  then show ?case by (simp add: createNewChat_distinct)
next
  case (3 st now sessionId as)
  then show ?case by (simp add: deleteSession_distinct)
qed

text \<open>
  A run that satisfies the proviso: two creations at different clock readings, the
  deletion of both sessions (the second one synthesises the fallback session), and one
  more creation.
\<close>

theorem ids_distinct_when_clock_fresh_witness:
  "distinct (map session_id (sessions (loadHistory 1000 Absent initialState)))
   \<and> freshClock (loadHistory 1000 Absent initialState)
        [NewChat 1001, Delete 1002 (js ''1001''), Delete 1003 (js ''1000''), NewChat 1004]
   \<and> distinct (map session_id (sessions (foldl perform (loadHistory 1000 Absent initialState)
        [NewChat 1001, Delete 1002 (js ''1001''), Delete 1003 (js ''1000''), NewChat 1004])))"
proof -
  have d: "distinct (map session_id (sessions (loadHistory 1000 Absent initialState)))"
    by (simp add: loadHistory_def createNewChat_def Let_def initialState_def)
  have f: "freshClock (loadHistory 1000 Absent initialState)
        [NewChat 1001, Delete 1002 (js ''1001''), Delete 1003 (js ''1000''), NewChat 1004]"
    by (simp add: loadHistory_def createNewChat_def deleteSession_def Let_def initialState_def
        js_def toString.simps)
  from d f ids_distinct_when_clock_fresh [OF d f] show ?thesis by simp
qed

section \<open>The guards and the context of a send\<close>

text \<open>
  C6. \<open>handleSendMessage\<close> changes nothing and makes no request of the engine when the
  input text trims to the empty string, or a send is in flight (\<open>isLoading\<close>), or the
  active id is the id of no session.
\<close>

theorem handleSendMessage_noop:
  "trim (inputText st) = [] \<or> isLoading st \<or> activeSession st = None \<Longrightarrow>
   handleSendMessage now1 now2 st = (st, None)"
  by (auto simp: handleSendMessage_def)

text \<open>
  One state for each of the three guards: white space only, a send in flight, an
  active id that no session has.
\<close>

theorem handleSendMessage_noop_witness:
  "handleSendMessage 5 6 (exampleScreen\<lparr>inputText := [32, 10, 9]\<rparr>)
     = (exampleScreen\<lparr>inputText := [32, 10, 9]\<rparr>, None)
   \<and> handleSendMessage 5 6 (exampleScreen\<lparr>isLoading := True\<rparr>)
     = (exampleScreen\<lparr>isLoading := True\<rparr>, None)
   \<and> handleSendMessage 5 6 (exampleScreen\<lparr>activeSessionId := Some (js ''3'')\<rparr>)
     = (exampleScreen\<lparr>activeSessionId := Some (js ''3'')\<rparr>, None)"
proof -
  have a: "trim (inputText (exampleScreen\<lparr>inputText := [32, 10, 9]\<rparr>)) = []"
    by (simp add: trim_def isWhiteSpace_def)
  have b: "isLoading (exampleScreen\<lparr>isLoading := True\<rparr>)"
    by simp
  have c: "activeSession (exampleScreen\<lparr>activeSessionId := Some (js ''3'')\<rparr>) = None"
    by (simp add: activeSession_def exampleScreen_def exampleSessions_def js_def)
  show ?thesis
    using handleSendMessage_noop [of "exampleScreen\<lparr>inputText := [32, 10, 9]\<rparr>" 5 6]
      handleSendMessage_noop [of "exampleScreen\<lparr>isLoading := True\<rparr>" 5 6]
      handleSendMessage_noop [of "exampleScreen\<lparr>activeSessionId := Some (js ''3'')\<rparr>" 5 6]
      a b c
    by simp
qed

lemma find_map_same_key:
  assumes "\<And>x. P (f x) = P x"
  shows "find P (map f xs) = map_option f (find P xs)"
  using assms by (induction xs) simp_all

lemma activeSession_appendPair:
  assumes "activeSession st = Some active" "activeSessionId st = Some target"
  shows "activeSession (st\<lparr>sessions := appendPair target u p (sessions st),
                           inputText := [], isLoading := True\<rparr>)
         = Some (active\<lparr>messages := messages active @ [u, p]\<rparr>)"
proof -
  let ?f = "\<lambda>session. if session_id session = target
              then session\<lparr>messages := messages session @ [u, p]\<rparr> else session"
  have key: "\<And>x. (Some (session_id (?f x)) = Some target) = (Some (session_id x) = Some target)"
    by simp
  have "find (\<lambda>s. Some (session_id s) = Some target) (map ?f (sessions st))
        = map_option ?f (find (\<lambda>s. Some (session_id s) = Some target) (sessions st))"
    by (rule find_map_same_key) simp
  moreover from assms have fnd: "find (\<lambda>s. Some (session_id s) = Some target) (sessions st) = Some active"
    by (simp add: activeSession_def)
  moreover from fnd have "session_id active = target"
    by (auto simp: find_Some_iff)
  ultimately show ?thesis
    using assms by (simp add: activeSession_def appendPair_def)
qed

text \<open>
  C7. When \<open>handleSendMessage\<close> passes its guards, the context it sends is the last
  \<open>CONTEXT_WINDOW_SIZE\<close> messages of the active session (all of them when there are
  fewer), in their order, each with role user for a user message and role model
  otherwise, followed by one user entry whose text is the instruction prefix and then
  the raw input text. The active session gets two more messages at its end: a user
  message with the raw input text, then an assistant message with empty text.
\<close>

theorem handleSendMessage_context:
  assumes "trim (inputText st) \<noteq> []" and "\<not> isLoading st"
    and "activeSessionId st = Some target" and "target \<noteq> []"
    and "activeSession st = Some active"
  shows "snd (handleSendMessage now1 now2 st)
           = Some \<lparr>req_model = selectedModel st,
                   req_history =
                     map (\<lambda>msg. \<lparr>role = (if isFromUser msg then RoleUser else RoleModel),
                                  parts = [msg_text msg]\<rparr>)
                       (drop (length (messages active) - CONTEXT_WINDOW_SIZE) (messages active))
                     @ [\<lparr>role = RoleUser,
                         parts = [js ''Please format your response in Markdown. Here is my question: ''
                                  @ inputText st]\<rparr>],
                   req_target = target\<rparr>
         \<and> activeSession (fst (handleSendMessage now1 now2 st))
           = Some (active\<lparr>messages := messages active
                     @ [\<lparr>msg_id = toString now1, msg_text = inputText st, isFromUser = True\<rparr>,
                        \<lparr>msg_id = toString (now2 + 1), msg_text = [], isFromUser = False\<rparr>]\<rparr>)
         \<and> activeSessionId (fst (handleSendMessage now1 now2 st)) = Some target"
proof -
  let ?u = "\<lparr>msg_id = toString now1, msg_text = inputText st, isFromUser = True\<rparr>"
  let ?p = "\<lparr>msg_id = toString (now2 + 1), msg_text = [], isFromUser = False\<rparr>"
  have run: "handleSendMessage now1 now2 st =
      (st\<lparr>sessions := appendPair target ?u ?p (sessions st), inputText := [], isLoading := True\<rparr>,
       Some \<lparr>req_model = selectedModel st,
             req_history = map toContent
                 (drop (length (messages active) - CONTEXT_WINDOW_SIZE) (messages active))
               @ [\<lparr>role = RoleUser, parts = [promptPrefix @ inputText st]\<rparr>],
             req_target = target\<rparr>)"
    using assms by (simp add: handleSendMessage_def Let_def)
  have hist: "map toContent xs = map (\<lambda>msg. \<lparr>role = (if isFromUser msg then RoleUser else RoleModel),
                                  parts = [msg_text msg]\<rparr>) xs" for xs
    by (simp add: toContent_def)
  have request: "snd (handleSendMessage now1 now2 st)
           = Some \<lparr>req_model = selectedModel st,
                   req_history =
                     map (\<lambda>msg. \<lparr>role = (if isFromUser msg then RoleUser else RoleModel),
                                  parts = [msg_text msg]\<rparr>)
                       (drop (length (messages active) - CONTEXT_WINDOW_SIZE) (messages active))
                     @ [\<lparr>role = RoleUser,
                         parts = [js ''Please format your response in Markdown. Here is my question: ''
                                  @ inputText st]\<rparr>],
                   req_target = target\<rparr>"
    by (simp add: run hist promptPrefix_def)
  have appended: "activeSession (fst (handleSendMessage now1 now2 st))
           = Some (active\<lparr>messages := messages active @ [?u, ?p]\<rparr>)"
    using activeSession_appendPair [OF assms(5) assms(3), of ?u ?p] by (simp add: run)
  have still: "activeSessionId (fst (handleSendMessage now1 now2 st)) = Some target"
    using assms(3) by (simp add: run)
  from request appended still show ?thesis
    by (intro conjI)
qed

text \<open>
  The send of \<^verbatim>\<open>"hi"\<close> in a session with one earlier exchange, and in a session with
  twelve messages, of which the last ten are sent.
\<close>

theorem handleSendMessage_context_witness:
  "snd (handleSendMessage 5 6 exampleScreen)
     = Some \<lparr>req_model = js ''gemini-1.5-flash'',
             req_history =
               [\<lparr>role = RoleUser, parts = [js ''hello'']\<rparr>,
                \<lparr>role = RoleModel, parts = [js ''Hel'']\<rparr>,
                \<lparr>role = RoleUser,
                 parts = [js ''Please format your response in Markdown. Here is my question: hi'']\<rparr>],
             req_target = js ''2''\<rparr>
   \<and> map_option messages (activeSession (fst (handleSendMessage 5 6 exampleScreen)))
     = Some (exampleMessages
             @ [\<lparr>msg_id = js ''5'', msg_text = js ''hi'', isFromUser = True\<rparr>,
                \<lparr>msg_id = js ''7'', msg_text = [], isFromUser = False\<rparr>])
   \<and> map_option (map parts \<circ> req_history) (snd (handleSendMessage 5 6 exampleLong))
     = Some [[js ''2''], [js ''3''], [js ''4''], [js ''5''], [js ''6''], [js ''7''], [js ''8''],
             [js ''9''], [js ''10''], [js ''11''],
             [js ''Please format your response in Markdown. Here is my question: hi'']]
   \<and> map_option (map role \<circ> req_history) (snd (handleSendMessage 5 6 exampleLong))
     = Some [RoleUser, RoleModel, RoleUser, RoleModel, RoleUser, RoleModel, RoleUser,
             RoleModel, RoleUser, RoleModel, RoleUser]"
proof -
  have t: "trim (js ''hi'') \<noteq> []"
    by (simp add: trim_def js_def isWhiteSpace_def)
  have a: "activeSession exampleScreen
           = Some \<lparr>session_id = js ''2'', messages = exampleMessages\<rparr>"
    by (simp add: activeSession_def exampleScreen_def exampleSessions_def)
  have b: "activeSession exampleLong
           = Some \<lparr>session_id = js ''1'',
                   messages = map (\<lambda>n. \<lparr>msg_id = toString n, msg_text = toString n,
                                          isFromUser = even n\<rparr>) [0..<12]\<rparr>"
    by (simp add: activeSession_def exampleLong_def)
  have c: "js ''2'' \<noteq> []" "js ''1'' \<noteq> []"
    by (simp_all add: js_def)
  have one: "snd (handleSendMessage 5 6 exampleScreen)
     = Some \<lparr>req_model = js ''gemini-1.5-flash'',
             req_history =
               [\<lparr>role = RoleUser, parts = [js ''hello'']\<rparr>,
                \<lparr>role = RoleModel, parts = [js ''Hel'']\<rparr>,
                \<lparr>role = RoleUser,
                 parts = [js ''Please format your response in Markdown. Here is my question: hi'']\<rparr>],
             req_target = js ''2''\<rparr>
   \<and> map_option messages (activeSession (fst (handleSendMessage 5 6 exampleScreen)))
     = Some (exampleMessages
             @ [\<lparr>msg_id = js ''5'', msg_text = js ''hi'', isFromUser = True\<rparr>,
                \<lparr>msg_id = js ''7'', msg_text = [], isFromUser = False\<rparr>])"
    using handleSendMessage_context [of exampleScreen "js ''2''"
        "\<lparr>session_id = js ''2'', messages = exampleMessages\<rparr>" 5 6] t a c
    by (simp add: exampleScreen_def initialState_def exampleMessages_def
        CONTEXT_WINDOW_SIZE_def toString.simps js_def)
  have two: "map_option (map parts \<circ> req_history) (snd (handleSendMessage 5 6 exampleLong))
     = Some [[js ''2''], [js ''3''], [js ''4''], [js ''5''], [js ''6''], [js ''7''], [js ''8''],
             [js ''9''], [js ''10''], [js ''11''],
             [js ''Please format your response in Markdown. Here is my question: hi'']]
   \<and> map_option (map role \<circ> req_history) (snd (handleSendMessage 5 6 exampleLong))
     = Some [RoleUser, RoleModel, RoleUser, RoleModel, RoleUser, RoleModel, RoleUser,
             RoleModel, RoleUser, RoleModel, RoleUser]"
    using handleSendMessage_context [of exampleLong "js ''1''"
        "\<lparr>session_id = js ''1'',
          messages = map (\<lambda>n. \<lparr>msg_id = toString n, msg_text = toString n,
                                 isFromUser = even n\<rparr>) [0..<12]\<rparr>" 5 6] t b c
    by (simp add: exampleLong_def initialState_def CONTEXT_WINDOW_SIZE_def drop_map
        upt_rec toString.simps js_def)
  from one two show ?thesis by simp
qed

section \<open>What is persisted\<close>

text \<open>
  C8. What \<open>saveHistory\<close> writes is the first \<open>MAX_HISTORY_LENGTH\<close> sessions of the
  collection: never more than \<open>MAX_HISTORY_LENGTH\<close>, exactly that many when the
  collection has at least as many, the rest dropped. A collection of 150 sessions is
  written as its first 100. (Nothing is written for an empty collection, or by the
  effect while a send is in flight.)
\<close>

theorem saveHistory_truncates:
  "(saveHistory ss = Some written \<longrightarrow>
      written = take MAX_HISTORY_LENGTH ss \<and> length written \<le> MAX_HISTORY_LENGTH
      \<and> ss = written @ drop MAX_HISTORY_LENGTH ss
      \<and> (MAX_HISTORY_LENGTH \<le> length ss \<longrightarrow> length written = MAX_HISTORY_LENGTH))
   \<and> (ss \<noteq> [] \<longrightarrow> saveHistory ss = Some (take MAX_HISTORY_LENGTH ss))
   \<and> (length ss = 150 \<longrightarrow>
        saveHistory ss = Some (take 100 ss) \<and> length (take 100 ss) = 100)
   \<and> (saveHistoryEffect st = Some written \<longrightarrow>
        written = take MAX_HISTORY_LENGTH (sessions st))"
  by (auto simp: saveHistory_def saveHistoryEffect_def MAX_HISTORY_LENGTH_def split: if_splits)

text \<open>
  A collection of 150 sessions with ids \<^verbatim>\<open>"0"\<close> to \<^verbatim>\<open>"149"\<close>: the sessions
  \<^verbatim>\<open>"0"\<close> to \<^verbatim>\<open>"99"\<close> are written.
\<close>

theorem saveHistory_truncates_witness:
  "saveHistory (map (\<lambda>n. \<lparr>session_id = toString n, messages = []\<rparr>) [0..<150])
     = Some (map (\<lambda>n. \<lparr>session_id = toString n, messages = []\<rparr>) [0..<100])
   \<and> saveHistoryEffect exampleScreen = Some exampleSessions"
proof -
  let ?ss = "map (\<lambda>n. \<lparr>session_id = toString n, messages = []\<rparr>) [0..<150]"
  have len: "length ?ss = 150" by simp
  have eff: "saveHistoryEffect exampleScreen = Some exampleSessions"
    by (simp add: saveHistoryEffect_def saveHistory_def exampleScreen_def exampleSessions_def
        initialState_def MAX_HISTORY_LENGTH_def)
  from saveHistory_truncates [of ?ss "take 100 ?ss" exampleScreen] len
  have "saveHistory ?ss = Some (take 100 ?ss)" by blast
  moreover from saveHistory_truncates [of exampleSessions exampleSessions exampleScreen] eff
  have "exampleSessions = take MAX_HISTORY_LENGTH (sessions exampleScreen)" by blast
  ultimately show ?thesis using eff by (simp add: take_map)
qed

section \<open>The frame of the session updates\<close>

text \<open>
  C10. The update that appends the user message and the placeholder, and the update of
  each chunk, keep the number, the order and the ids of the sessions and leave every
  session whose id is not the target id as it was. In a target session the first
  appends exactly the two messages; the second keeps the number of messages and all
  messages but the last, and changes of the last message only the text, to which it
  appends the chunk. A whole call of \<open>handleSendMessage\<close>, whether it passes its guards
  or not, likewise leaves every session whose id is not the active id as it was.
\<close>

theorem updaters_frame:
  "length (appendPair target u p ss) = length ss
   \<and> length (onChunk target chunk ss) = length ss
   \<and> (\<forall>i < length ss.
        session_id (appendPair target u p ss ! i) = session_id (ss ! i)
        \<and> session_id (onChunk target chunk ss ! i) = session_id (ss ! i)
        \<and> (session_id (ss ! i) \<noteq> target \<longrightarrow>
              appendPair target u p ss ! i = ss ! i \<and> onChunk target chunk ss ! i = ss ! i)
        \<and> (session_id (ss ! i) = target \<longrightarrow>
              messages (appendPair target u p ss ! i) = messages (ss ! i) @ [u, p]
              \<and> length (messages (onChunk target chunk ss ! i)) = length (messages (ss ! i))
              \<and> butlast (messages (onChunk target chunk ss ! i)) = butlast (messages (ss ! i))
              \<and> (messages (ss ! i) \<noteq> [] \<longrightarrow>
                    msg_text (last (messages (onChunk target chunk ss ! i)))
                      = msg_text (last (messages (ss ! i))) @ chunk
                    \<and> msg_id (last (messages (onChunk target chunk ss ! i)))
                      = msg_id (last (messages (ss ! i)))
                    \<and> isFromUser (last (messages (onChunk target chunk ss ! i)))
                      = isFromUser (last (messages (ss ! i))))))
   \<and> length (sessions (fst (handleSendMessage now1 now2 st))) = length (sessions st)
   \<and> (\<forall>i < length (sessions st).
         Some (session_id (sessions st ! i)) \<noteq> activeSessionId st \<longrightarrow>
         sessions (fst (handleSendMessage now1 now2 st)) ! i = sessions st ! i)"
proof -
  have updaters: "length (appendPair target u p ss) = length ss
   \<and> length (onChunk target chunk ss) = length ss
   \<and> (\<forall>i < length ss.
        session_id (appendPair target u p ss ! i) = session_id (ss ! i)
        \<and> session_id (onChunk target chunk ss ! i) = session_id (ss ! i)
        \<and> (session_id (ss ! i) \<noteq> target \<longrightarrow>
              appendPair target u p ss ! i = ss ! i \<and> onChunk target chunk ss ! i = ss ! i)
        \<and> (session_id (ss ! i) = target \<longrightarrow>
              messages (appendPair target u p ss ! i) = messages (ss ! i) @ [u, p]
              \<and> length (messages (onChunk target chunk ss ! i)) = length (messages (ss ! i))
              \<and> butlast (messages (onChunk target chunk ss ! i)) = butlast (messages (ss ! i))
              \<and> (messages (ss ! i) \<noteq> [] \<longrightarrow>
                    msg_text (last (messages (onChunk target chunk ss ! i)))
                      = msg_text (last (messages (ss ! i))) @ chunk
                    \<and> msg_id (last (messages (onChunk target chunk ss ! i)))
                      = msg_id (last (messages (ss ! i)))
                    \<and> isFromUser (last (messages (onChunk target chunk ss ! i)))
                      = isFromUser (last (messages (ss ! i))))))"
    by (auto simp: appendPair_def onChunk_def Let_def split: list.splits)
  have send: "length (sessions (fst (handleSendMessage now1 now2 st))) = length (sessions st)
   \<and> (\<forall>i < length (sessions st).
         Some (session_id (sessions st ! i)) \<noteq> activeSessionId st \<longrightarrow>
         sessions (fst (handleSendMessage now1 now2 st)) ! i = sessions st ! i)"
    by (auto simp: handleSendMessage_def appendPair_def Let_def split: option.splits)
  from updaters send show ?thesis
    by (elim conjE, intro conjI) assumption+
qed

text \<open>
  The chunk \<^verbatim>\<open>"lo"\<close> folded into a session whose last message reads \<^verbatim>\<open>"Hel"\<close>, next
  to a session with another id.
\<close>

theorem updaters_frame_witness:
  "onChunk (js ''2'') (js ''lo'') exampleSessions ! 1 = exampleSessions ! 1
   \<and> appendPair (js ''2'')
         \<lparr>msg_id = js ''5'', msg_text = js ''hi'', isFromUser = True\<rparr>
         \<lparr>msg_id = js ''7'', msg_text = [], isFromUser = False\<rparr> exampleSessions ! 1
       = exampleSessions ! 1
   \<and> messages (appendPair (js ''2'')
         \<lparr>msg_id = js ''5'', msg_text = js ''hi'', isFromUser = True\<rparr>
         \<lparr>msg_id = js ''7'', msg_text = [], isFromUser = False\<rparr> exampleSessions ! 0)
       = exampleMessages
         @ [\<lparr>msg_id = js ''5'', msg_text = js ''hi'', isFromUser = True\<rparr>,
            \<lparr>msg_id = js ''7'', msg_text = [], isFromUser = False\<rparr>]
   \<and> msg_text (last (messages (onChunk (js ''2'') (js ''lo'') exampleSessions ! 0)))
       = js ''Hello''
   \<and> msg_id (last (messages (onChunk (js ''2'') (js ''lo'') exampleSessions ! 0))) = js ''12''
   \<and> butlast (messages (onChunk (js ''2'') (js ''lo'') exampleSessions ! 0))
       = butlast exampleMessages"
  using updaters_frame [of "js ''2''"
      "\<lparr>msg_id = js ''5'', msg_text = js ''hi'', isFromUser = True\<rparr>"
      "\<lparr>msg_id = js ''7'', msg_text = [], isFromUser = False\<rparr>" exampleSessions "js ''lo''"
      5 6 exampleScreen]
  by (simp add: exampleSessions_def exampleMessages_def js_def)

section \<open>The engine\<close>

text \<open>
  C3. With no API key (the environment variable undefined or empty),
  \<open>streamGeminiResponse\<close> calls \<open>onChunk\<close> once, with the message that the key is not
  configured, rejects its promise with the same message, and sends no request.
\<close>

theorem missing_key_rejects:
  "apiKey = None \<or> apiKey = Some [] \<Longrightarrow>
   streamGeminiResponse apiKey modelId history
     = (\<lparr>lastResponseLength = 0,
         emitted = [js ''Error: API Key is not configured. Please check your .env file.''],
         promise = Rejected (js ''Error: API Key is not configured. Please check your .env file.'')\<rparr>,
        None)"
  by (auto simp: streamGeminiResponse_def missingKeyMsg_def)

text \<open>
  Both ways of having no key.
\<close>

theorem missing_key_rejects_witness:
  "emitted (fst (streamGeminiResponse None (js ''gemini-1.5-flash'') [])) = [missingKeyMsg]
   \<and> snd (streamGeminiResponse None (js ''gemini-1.5-flash'') []) = None
   \<and> promise (fst (streamGeminiResponse (Some []) (js ''gemini-1.5-flash'') []))
       = Rejected missingKeyMsg
   \<and> snd (streamGeminiResponse (Some []) (js ''gemini-1.5-flash'') []) = None"
  using missing_key_rejects [of None "js ''gemini-1.5-flash''" "[]"]
    missing_key_rejects [of "Some []" "js ''gemini-1.5-flash''" "[]"]
  by (simp add: missingKeyMsg_def)

text \<open>The definitions unfolded to run the engine on a concrete input.\<close>

lemmas evaluate =
  js_def dquote_def backslash_def isWhiteSpace_def matchAt_def decodeMatch_def
  jsonParseQuoted_def consDecoded_def isJsonWhiteSpace_def hexDigit_def simpleEscape_def
  onprogress_def onloadend_def onerror_def settle_def exampleEngine_def
  streamGeminiResponse_def toString.simps Let_def

text \<open>
  C1 fails on the code. Each progress event sets \<open>lastResponseLength\<close> to the length
  of all the text received, matched or not, so a field that is cut by the end of one
  event is scanned in two halves and matches in neither. The body
  \<^verbatim>\<open>{"text":"Hello"}\<close> gives the chunk \<^verbatim>\<open>Hello\<close> when it arrives in one piece; when it
  arrives as \<^verbatim>\<open>{"text":"Hel\<close> and \<^verbatim>\<open>lo"}\<close>, the first event gives no chunk and the
  second gives none either. A cut right after an escaped quote even gives a chunk that
  is no text of the body: the body \<^verbatim>\<open>{"text":"say \"hi\""}\<close> gives \<^verbatim>\<open>say "hi"\<close> in one
  piece, and the undecoded \<^verbatim>\<open>say \\<close> alone when the first piece ends after
  \<^verbatim>\<open>say \"\<close>.
\<close>

theorem split_field_is_dropped:
  "emitted (feed exampleEngine [] [js ''{\"text\":\"Hello\"}'']) = [js ''Hello'']
   \<and> emitted (feed exampleEngine [] [js ''{\"text\":\"Hel'']) = []
   \<and> emitted (feed exampleEngine [] [js ''{\"text\":\"Hel'', js ''lo\"}'']) = []
   \<and> emitted (feed exampleEngine []
         [js ''{\"text\":\"say '' @ [backslash, dquote] @ js ''hi'' @ [backslash, dquote]
          @ js ''\"}'']) = [js ''say \"hi\"'']
   \<and> emitted (feed exampleEngine []
         [js ''{\"text\":\"say '' @ [backslash, dquote],
          js ''hi'' @ [backslash, dquote] @ js ''\"}'']) = [js ''say '' @ [backslash]]"
  by (simp add: evaluate)

text \<open>
  C2 fails on the code. When the exchange ends with status 500 and no error event,
  \<open>onloadend\<close> rejects the promise and \<open>onChunk\<close> is never called. The handler of a
  network error does call \<open>onChunk\<close> with an error text before it rejects.
\<close>

theorem failed_status_emits_nothing:
  "emitted (foldl dispatch exampleEngine [OnLoadEnd 500]) = []
   \<and> promise (foldl dispatch exampleEngine [OnLoadEnd 500])
       = Rejected (js ''Request failed. Status: 500'')
   \<and> emitted (foldl dispatch exampleEngine [OnError 0, OnLoadEnd 0])
       = [[10, 10] @ js ''**Error:** Network request failed. Status: 0'']
   \<and> promise (foldl dispatch exampleEngine [OnError 0, OnLoadEnd 0])
       = Rejected (js ''Network request failed. Status: 0'')"
  by (simp add: evaluate)

section \<open>Further properties of the engine\<close>

text \<open>
  X1. The engine scans each piece of the body on its own: the chunks of a body that
  arrives in pieces are the chunks of the first piece, then those of the second, and so
  on, and the offset ends at the length of all that arrived.
\<close>

theorem feed_scans_each_piece:
  "lastResponseLength e = length received \<Longrightarrow>
   emitted (feed e received pieces) = emitted e @ concat (map scan pieces)
   \<and> lastResponseLength (feed e received pieces) = length (received @ concat pieces)"
  by (induction e received pieces rule: feed.induct) (simp_all add: onprogress_def Let_def)

text \<open>
  Two pieces that each hold a whole field.
\<close>

theorem feed_scans_each_piece_witness:
  "emitted (feed exampleEngine [] [js ''{\"text\":\"a\"},'', js ''{\"text\":\"b\"}''])
     = scan (js ''{\"text\":\"a\"},'') @ scan (js ''{\"text\":\"b\"}'')"
  using feed_scans_each_piece [of exampleEngine "[]" "[js ''{\"text\":\"a\"},'', js ''{\"text\":\"b\"}'']"]
  by (simp add: exampleEngine_def streamGeminiResponse_def js_def)

lemma matchValue_plain:
  "list_all plainChar v \<Longrightarrow> matchValue (v @ dquote # rest) = Some (v, rest)"
proof (induction v)
  case Nil
  show ?case by (cases rest) simp_all
next
  case (Cons c v)
  then have IH: "matchValue (v @ dquote # rest) = Some (v, rest)" and c: "plainChar c"
    by simp_all
  obtain d cs where split: "v @ dquote # rest = d # cs"
    by (cases v) simp_all
  from c IH show ?case
    unfolding append_Cons split
    by (simp add: plainChar_def)
qed

lemma jsonString_plain:
  "list_all plainChar v \<Longrightarrow> jsonString (v @ dquote # rest) = Some (v, rest)"
  by (induction v) (simp_all add: plainChar_def consDecoded_def)

lemma decodeMatch_plain: "list_all plainChar v \<Longrightarrow> decodeMatch v = v"
  using jsonString_plain [of v "[]"]
  by (simp add: decodeMatch_def jsonParseQuoted_def)

text \<open>
  X5. A body with one field \<^verbatim>\<open>"text"\<close> whose value has only characters that stand for
  themselves, received in one piece, gives exactly one chunk: that value.
\<close>

theorem scan_plain_field:
  "list_all plainChar v \<Longrightarrow>
   scan (js ''{\"text\": \"'' @ v @ js ''\"}'') = [v]"
proof -
  assume p: "list_all plainChar v"
  have m: "matchAt (js ''\"text\": \"'' @ v @ js ''\"}'') = Some (v, js ''}'')"
    using matchValue_plain [OF p, of "js ''}''"]
    by (simp add: matchAt_def js_def isWhiteSpace_def dquote_def)
  have n: "matchAt (js ''{\"text\": \"'' @ v @ js ''\"}'') = None"
    by (simp add: matchAt_def js_def)
  have e: "matchAt (js ''}'') = None"
    by (simp add: matchAt_def js_def)
  have "scan (js ''{\"text\": \"'' @ v @ js ''\"}'') = scan (js ''\"text\": \"'' @ v @ js ''\"}'')"
    using n by (simp add: js_def)
  also have "\<dots> = decodeMatch v # scan (js ''}'')"
    using m by (simp add: js_def)
  also have "\<dots> = [v]"
    using e decodeMatch_plain [OF p] by (simp add: js_def)
  finally show ?thesis .
qed

text \<open>
  The value \<^verbatim>\<open>Hello, world\<close>.
\<close>

theorem scan_plain_field_witness:
  "scan (js ''{\"text\": \"Hello, world\"}'') = [js ''Hello, world'']"
  using scan_plain_field [of "js ''Hello, world''"]
  by (simp add: plainChar_def js_def dquote_def backslash_def)

lemma dispatch_progress_promise:
  "promise (foldl dispatch e (map OnProgress texts)) = promise e"
  by (induction texts arbitrary: e) (simp_all add: onprogress_def Let_def)

text \<open>
  X2. After any progress events, the end of the exchange fulfils the pending promise
  when the status is from 200 to 299 and rejects it otherwise, and calls \<open>onChunk\<close> in
  neither case; a network error calls \<open>onChunk\<close> once with the error text and rejects
  the promise, and the end of the exchange that follows changes nothing.
\<close>

theorem promise_settles_by_status:
  "promise e = Pending \<Longrightarrow>
   promise (foldl dispatch e (map OnProgress texts @ [OnLoadEnd status]))
     = (if 200 \<le> status \<and> status < 300 then Fulfilled
        else Rejected (js ''Request failed. Status: '' @ toString status))
   \<and> emitted (foldl dispatch e (map OnProgress texts @ [OnLoadEnd status]))
     = emitted (foldl dispatch e (map OnProgress texts))
   \<and> promise (foldl dispatch e (map OnProgress texts @ [OnError status, OnLoadEnd status']))
     = Rejected (js ''Network request failed. Status: '' @ toString status)
   \<and> emitted (foldl dispatch e (map OnProgress texts @ [OnError status, OnLoadEnd status']))
     = emitted (foldl dispatch e (map OnProgress texts))
       @ [[10, 10] @ js ''**Error:** Network request failed. Status: '' @ toString status]"
  using dispatch_progress_promise [of e texts]
  by (simp add: onloadend_def onerror_def settle_def Let_def js_def)

text \<open>
  One progress event with one field, then the end of the exchange with status 200.
\<close>

theorem promise_settles_by_status_witness:
  "promise (foldl dispatch exampleEngine
      (map OnProgress [js ''{\"text\":\"Hi\"}''] @ [OnLoadEnd 200])) = Fulfilled
   \<and> emitted (foldl dispatch exampleEngine
      (map OnProgress [js ''{\"text\":\"Hi\"}''] @ [OnLoadEnd 200])) = [js ''Hi'']"
proof -
  have p: "promise exampleEngine = Pending"
    by (simp add: exampleEngine_def streamGeminiResponse_def js_def)
  from promise_settles_by_status [where e = exampleEngine and texts = "[js ''{\"text\":\"Hi\"}'']"
      and status = 200 and status' = 0, OF p]
  show ?thesis
    by (simp add: evaluate)
qed

section \<open>Further properties of the session store\<close>

lemma onChunk_fold_one:
  assumes "messages s \<noteq> []" "session_id s = target"
  shows "foldl (\<lambda>prev chunk. onChunk target chunk prev) (before @ s # after) chunks
     = foldl (\<lambda>prev chunk. onChunk target chunk prev) before chunks
       @ s\<lparr>messages := butlast (messages s)
            @ [(last (messages s))\<lparr>msg_text := msg_text (last (messages s)) @ concat chunks\<rparr>]\<rparr>
       # foldl (\<lambda>prev chunk. onChunk target chunk prev) after chunks"
  using assms
proof (induction chunks arbitrary: before s after)
  case Nil
  then show ?case by simp
next
  case (Cons c cs)
  let ?s' = "s\<lparr>messages := butlast (messages s)
            @ [(last (messages s))\<lparr>msg_text := msg_text (last (messages s)) @ c\<rparr>]\<rparr>"
  from Cons.prems have step: "onChunk target c (before @ s # after)
      = onChunk target c before @ ?s' # onChunk target c after"
    by (simp add: onChunk_def Let_def split: list.splits)
  have "messages ?s' \<noteq> []" "session_id ?s' = target"
    using Cons.prems by simp_all
  from Cons.IH [OF this, of "onChunk target c before" "onChunk target c after"] step
  show ?case by simp
qed

text \<open>
  X3. Folding a sequence of chunks into the collection leaves the target session with
  its earlier messages and with a last message whose text is the old text followed by
  all the chunks in order.
\<close>

theorem chunks_fill_placeholder:
  "messages s \<noteq> [] \<Longrightarrow> session_id s = target \<Longrightarrow>
   foldl (\<lambda>prev chunk. onChunk target chunk prev) (before @ s # after) chunks
     ! length before
     = s\<lparr>messages := butlast (messages s)
          @ [(last (messages s))\<lparr>msg_text := msg_text (last (messages s)) @ concat chunks\<rparr>]\<rparr>"
proof -
  assume a: "messages s \<noteq> []" "session_id s = target"
  have len: "length (foldl (\<lambda>prev chunk. onChunk target chunk prev) xs chunks) = length xs" for xs
    by (induction chunks arbitrary: xs) (simp_all add: onChunk_def)
  from onChunk_fold_one [OF a, of before after chunks] len [of before]
  show ?thesis by (simp add: nth_append)
qed

text \<open>
  The chunks \<^verbatim>\<open>"l"\<close> and \<^verbatim>\<open>"o!"\<close> folded into a message that reads \<^verbatim>\<open>"Hel"\<close>.
\<close>

theorem chunks_fill_placeholder_witness:
  "foldl (\<lambda>prev chunk. onChunk (js ''2'') chunk prev) exampleSessions [js ''l'', js ''o!''] ! 0
   = \<lparr>session_id = js ''2'',
      messages = [\<lparr>msg_id = js ''11'', msg_text = js ''hello'', isFromUser = True\<rparr>,
                  \<lparr>msg_id = js ''12'', msg_text = js ''Hello!'', isFromUser = False\<rparr>]\<rparr>"
  using chunks_fill_placeholder [of "\<lparr>session_id = js ''2'', messages = exampleMessages\<rparr>"
      "js ''2''" "[]" "[\<lparr>session_id = js ''1'', messages = []\<rparr>]" "[js ''l'', js ''o!'']"]
  by (simp add: exampleSessions_def exampleMessages_def js_def)

lemma toString_nonempty: "toString n \<noteq> []"
  by (subst toString.simps) simp

lemma toString_inj: "toString a = toString b \<Longrightarrow> a = b"
proof (induction a arbitrary: b rule: toString.induct)
  case (1 a)
  show ?case
  proof (cases "a < 10")
    case True
    show ?thesis
    proof (cases "b < 10")
      case True
      with \<open>a < 10\<close> "1.prems" show ?thesis
        by (simp add: toString.simps)
    next
      case False
      with \<open>a < 10\<close> "1.prems" toString_nonempty [of "b div 10"] show ?thesis
        by (simp add: toString.simps [of a] toString.simps [of b])
    qed
  next
    case False
    show ?thesis
    proof (cases "b < 10")
      case True
      with False "1.prems" toString_nonempty [of "a div 10"] show ?thesis
        by (simp add: toString.simps [of a] toString.simps [of b])
    next
      case bge: False
      with False "1.prems" have "toString (a div 10) = toString (b div 10)" "a mod 10 = b mod 10"
        by (simp_all add: toString.simps [of a] toString.simps [of b])
      with "1.IH" [OF False] have "a div 10 = b div 10" "a mod 10 = b mod 10"
        by simp_all
      then show ?thesis
        by (metis div_mult_mod_eq)
    qed
  qed
qed

lemma ids_bound_mono:
  assumes "list_all (\<lambda>s. \<exists>t \<le> n. session_id s = toString t) ss" "n \<le> m"
  shows "list_all (\<lambda>s. \<exists>t \<le> m. session_id s = toString t) ss"
  using assms by (induction ss) (auto intro: order_trans)

lemma perform_ids_bound:
  assumes "distinct (map session_id (sessions st))" "list_all (\<lambda>s. \<exists>t \<le> n. session_id s = toString t) (sessions st)" "n < clockOf a"
  shows "distinct (map session_id (sessions (perform st a)))
         \<and> list_all (\<lambda>s. \<exists>t \<le> clockOf a. session_id s = toString t) (sessions (perform st a))"
proof (cases a)
  case (NewChat now)
  have fresh: "toString now \<notin> set (map session_id (sessions st))"
  proof
    assume "toString now \<in> set (map session_id (sessions st))"
    then obtain s where "s \<in> set (sessions st)" "session_id s = toString now"
      by auto
    with assms(2) obtain t where "t \<le> n" "toString now = toString t"
      by (auto simp: list_all_iff)
    with toString_inj assms(3) NewChat show False
      by fastforce
  qed
  from assms(2,3) NewChat have "list_all (\<lambda>s. \<exists>t \<le> now. session_id s = toString t) (sessions st)"
    by (auto simp: intro: ids_bound_mono)
  then have "list_all (\<lambda>s. \<exists>t \<le> now. session_id s = toString t) (sessions (createNewChat now st))"
    by (auto simp: createNewChat_def Let_def)
  with fresh assms(1) NewChat show ?thesis
    by (simp add: createNewChat_def Let_def)
next
  case (Delete now sessionId)
  from assms(2,3) Delete have "list_all (\<lambda>s. \<exists>t \<le> now. session_id s = toString t) (sessions st)"
    by (auto simp: intro: ids_bound_mono)
  then have "list_all (\<lambda>s. \<exists>t \<le> now. session_id s = toString t) (sessions (deleteSession now sessionId st))"
    by (auto simp: deleteSession_def Let_def list_all_iff)
  moreover from assms(1) have "distinct (map session_id (sessions (deleteSession now sessionId st)))"
    by (simp add: deleteSession_def Let_def distinct_map_filter)
  ultimately show ?thesis using Delete by simp
qed

lemma run_ids_bound:
  "distinct (map session_id (sessions st)) \<Longrightarrow> list_all (\<lambda>s. \<exists>t \<le> n. session_id s = toString t) (sessions st) \<Longrightarrow>
   sorted_wrt (<) (n # map clockOf as) \<Longrightarrow>
   distinct (map session_id (sessions (foldl perform st as)))"
proof (induction as arbitrary: st n)
  case Nil
  then show ?case by simp
next
  case (Cons a as)
  from Cons.prems have lt: "n < clockOf a" and rest: "sorted_wrt (<) (clockOf a # map clockOf as)"
    by auto
  from perform_ids_bound [OF Cons.prems(1,2) lt] Cons.IH [OF _ _ rest]
  show ?case by simp
qed

text \<open>
  X4. When the application starts with no stored sessions and every later
  \<open>createNewChat\<close> and \<open>deleteSession\<close> reads a clock value larger than all the
  readings before it, the session ids are pairwise distinct in every state.
\<close>

theorem ids_distinct_when_clock_advances:
  "storedHistory \<in> {Absent, Malformed, Parsed []} \<Longrightarrow>
   sorted_wrt (<) (now0 # map clockOf as) \<Longrightarrow>
   distinct (map session_id (sessions (foldl perform (loadHistory now0 storedHistory initialState) as)))"
proof -
  assume s: "storedHistory \<in> {Absent, Malformed, Parsed []}"
    and o: "sorted_wrt (<) (now0 # map clockOf as)"
  from s have l: "loadHistory now0 storedHistory initialState = createNewChat now0 initialState"
    by (auto simp: loadHistory_def)
  have d: "distinct (map session_id (sessions (createNewChat now0 initialState)))"
    by (simp add: createNewChat_def Let_def initialState_def)
  have b: "list_all (\<lambda>s. \<exists>t \<le> now0. session_id s = toString t) (sessions (createNewChat now0 initialState))"
    by (auto simp: createNewChat_def Let_def initialState_def)
  from run_ids_bound [OF d b o] l show ?thesis by simp
qed

text \<open>
  A run with the clock readings 1000 to 1004.
\<close>

theorem ids_distinct_when_clock_advances_witness:
  "distinct (map session_id (sessions (foldl perform (loadHistory 1000 Absent initialState)
        [NewChat 1001, Delete 1002 (js ''1001''), Delete 1003 (js ''1000''), NewChat 1004])))"
  using ids_distinct_when_clock_advances [of Absent 1000
      "[NewChat 1001, Delete 1002 (js ''1001''), Delete 1003 (js ''1000''), NewChat 1004]"]
  by simp

end
